theory Spec2Isabelle
  imports Complex_Main
begin

section \<open>Mailgun webhooks of django-anymail (anymail/webhooks/mailgun.py)\<close>

text \<open>
  A shallow embedding of \<^verbatim>\<open>src/anymail/webhooks/mailgun.py\<close>. Every function of the
  module becomes a HOL function that returns \<open>error + 'a\<close>: \<open>Inl\<close> is the exception the
  Python raises, \<open>Inr\<close> the value it returns.

  Strings are \<open>char list\<close>; one \<open>char\<close> stands for one character of the Python string, so
  the model covers the strings whose characters are below U+0100. A character is ASCII
  when it is below U+0080.

  Functions of the standard library and of Django whose results the module only passes
  on (\<^verbatim>\<open>hmac.new(...).hexdigest()\<close>, \<^verbatim>\<open>json.loads\<close>, \<^verbatim>\<open>float\<close>) are parameters of the
  model, as are the functions of \<^verbatim>\<open>AnymailInboundMessage\<close> and of the base view, which
  are not in this module. Every theorem holds for all of them.
\<close>

subsection \<open>Exceptions\<close>

datatype error =
    KeyError
  | ValueError
  | TypeError
  | AttributeError
  | OverflowError
  | OSError
  | UnicodeEncodeError
  | AnymailWebhookValidationFailure string
  | Unmodelled

text \<open>
  \<open>ValueError\<close> includes \<^verbatim>\<open>json.JSONDecodeError\<close>, its subclass. \<open>Unmodelled\<close> is not a
  Python exception: it marks the inputs on which a function that is not in this module is
  called outside of what the specification says about it (see \<open>combine\<close>).
\<close>

subsection \<open>Python built-ins\<close>

text \<open>\<^verbatim>\<open>str.encode('ascii')\<close>: the bytes of the string, or UnicodeEncodeError.\<close>

definition is_ascii :: "char \<Rightarrow> bool" where
  "is_ascii c = ((of_char c :: nat) < 128)"

definition encode_ascii :: "string \<Rightarrow> error + string" where
  "encode_ascii s = (if list_all is_ascii s then Inr s else Inl UnicodeEncodeError)"

text \<open>
  \<^verbatim>\<open>int(s)\<close> for a string, in base 10: surrounding whitespace is stripped, one sign is
  allowed, then decimal digits, where single underscores may separate digits
  (Python 3.6 and later). \<open>None\<close> is ValueError. The whitespace that \<^verbatim>\<open>int\<close> strips is
  tab, line feed, vertical tab, form feed, carriage return and space, and beyond ASCII
  the characters U+0085 and U+00A0; the separators U+001C to U+001F, which
  \<^verbatim>\<open>str.isspace\<close> accepts, are not stripped (\<^verbatim>\<open>int('\x1c450')\<close> raises ValueError).
\<close>

definition is_space :: "char \<Rightarrow> bool" where
  "is_space c = (c \<in> set [CHR 0x09, CHR 0x0A, CHR 0x0B, CHR 0x0C, CHR 0x0D, CHR 0x20,
                           CHR 0x85, CHR 0xA0])"

definition strip :: "string \<Rightarrow> string" where
  "strip s = rev (dropWhile is_space (rev (dropWhile is_space s)))"

definition is_digit :: "char \<Rightarrow> bool" where
  "is_digit c = (c \<in> set ''0123456789'')"

definition digit_val :: "char \<Rightarrow> int" where
  "digit_val c = of_char c - 48"

fun digit_run :: "string \<Rightarrow> bool" where
  "digit_run [] = False"
| "digit_run [c] = is_digit c"
| "digit_run (c # d # cs) =
     (is_digit c \<and> (if d = CHR ''_'' then digit_run cs else digit_run (d # cs)))"

definition decimal :: "string \<Rightarrow> int" where
  "decimal ds = foldl (\<lambda>acc c. 10 * acc + digit_val c) 0 (filter is_digit ds)"

definition py_int :: "string \<Rightarrow> int option" where
  "py_int s =
     (case strip s of
        [] \<Rightarrow> None
      | c # cs \<Rightarrow>
          if c = CHR ''-'' then (if digit_run cs then Some (- decimal cs) else None)
          else if c = CHR ''+'' then (if digit_run cs then Some (decimal cs) else None)
          else (if digit_run (c # cs) then Some (decimal (c # cs)) else None))"

text \<open>\<^verbatim>\<open>s.split(sep)\<close> for a one-character separator: never the empty list.\<close>

fun split :: "char \<Rightarrow> string \<Rightarrow> string list" where
  "split sep [] = [[]]"
| "split sep (c # cs) =
     (if c = sep then [] # split sep cs
      else (case split sep cs of
              [] \<Rightarrow> [[c]]
            | x # xs \<Rightarrow> (c # x) # xs))"




subsection \<open>Django's QueryDict\<close>

text \<open>
  \<^verbatim>\<open>request.POST\<close> and \<^verbatim>\<open>request.FILES\<close> are multi-valued dictionaries, built from the
  fields of the form in the order they were posted. The model keeps that list of
  (name, value) fields. \<^verbatim>\<open>d[key]\<close> is the last value posted under the key and raises
  KeyError (MultiValueDictKeyError) when there is none; \<^verbatim>\<open>d.get(key, default)\<close> gives
  the default instead; \<^verbatim>\<open>d.getlist(key, default)\<close> is the list of all values of a key
  that is present.
\<close>

type_synonym 'v multidict = "(string \<times> 'v) list"
type_synonym querydict = "string multidict"

definition getlist_all :: "'v multidict \<Rightarrow> string \<Rightarrow> 'v list" where
  "getlist_all d key = map snd (filter (\<lambda>kv. fst kv = key) d)"

definition contains :: "'v multidict \<Rightarrow> string \<Rightarrow> bool" where
  "contains d key = (key \<in> fst ` set d)"

definition getitem :: "'v multidict \<Rightarrow> string \<Rightarrow> error + 'v" where
  "getitem d key =
     (case getlist_all d key of
        [] \<Rightarrow> Inl KeyError
      | v # vs \<Rightarrow> Inr (last (v # vs)))"

definition get :: "'v multidict \<Rightarrow> string \<Rightarrow> 'v option \<Rightarrow> 'v option" where
  "get d key dflt =
     (case getitem d key of
        Inl e \<Rightarrow> dflt
      | Inr v \<Rightarrow> Some v)"

definition getlist :: "'v multidict \<Rightarrow> string \<Rightarrow> 'v list \<Rightarrow> 'v list" where
  "getlist d key dflt = (if contains d key then getlist_all d key else dflt)"

subsection \<open>The request\<close>

text \<open>
  A Django request, as far as the module reads it: the posted form fields and the
  uploaded files. (Further parts of a request, such as the HTTP headers that the base
  view's basic-auth check reads, live in the \<open>more\<close> part of the record.)
\<close>

record 'file request =
  POST :: querydict
  FILES :: "'file multidict"

subsection \<open>MailgunBaseWebhookView\<close>

text \<open>
  \<^verbatim>\<open>django.utils.crypto.constant_time_compare(a, b)\<close>: whether the two strings are equal
  (in time that does not depend on where they differ).
\<close>

definition constant_time_compare :: "string \<Rightarrow> string \<Rightarrow> bool" where
  "constant_time_compare val1 val2 = (val1 = val2)"

text \<open>
  \<^verbatim>\<open>validate_request(self, request)\<close>, lines 29-40. Its parameters: \<open>super_validate\<close> is
  the base view's \<^verbatim>\<open>validate_request\<close> (the basic-auth check; \<open>Some e\<close> when it raises
  \<open>e\<close>), \<open>hmac_hexdigest key msg\<close> is
  \<^verbatim>\<open>hmac.new(key=key, msg=msg, digestmod=hashlib.sha256).hexdigest()\<close>, and \<open>api_key\<close> is
  \<^verbatim>\<open>self.api_key\<close>. The three fields are read in the order token, timestamp, signature;
  a missing one raises the validation failure before anything is computed.
\<close>

definition validate_request ::
  "(('file, 'z) request_scheme \<Rightarrow> error option) \<Rightarrow> (string \<Rightarrow> string \<Rightarrow> string) \<Rightarrow> string
     \<Rightarrow> ('file, 'z) request_scheme \<Rightarrow> error + unit"
where
  "validate_request super_validate hmac_hexdigest api_key req =
     (case super_validate req of
        Some e \<Rightarrow> Inl e
      | None \<Rightarrow>
         (case (getitem (POST req) ''token'', getitem (POST req) ''timestamp'',
                getitem (POST req) ''signature'') of
            (Inr token, Inr tstamp, Inr signature) \<Rightarrow>
              (case encode_ascii (tstamp @ token) of
                 Inl e \<Rightarrow> Inl e
               | Inr msg \<Rightarrow>
                   let expected_signature = hmac_hexdigest api_key msg
                   in if \<not> constant_time_compare signature expected_signature
                      then Inl (AnymailWebhookValidationFailure
                                  ''Mailgun webhook called with incorrect signature'')
                      else Inr ())
          | _ \<Rightarrow> Inl (AnymailWebhookValidationFailure
                        ''Mailgun webhook called without required security fields'')))"

subsection \<open>Normalized events (anymail.signals)\<close>

text \<open>
  The enumerations and event classes are declared in \<^verbatim>\<open>anymail/signals.py\<close>; the
  members listed here are the ones this module names. A \<^verbatim>\<open>datetime\<close> in UTC is kept as
  its number of seconds since the epoch.
\<close>

datatype EventType =
    EventType_DELIVERED
  | EventType_REJECTED
  | EventType_BOUNCED
  | EventType_COMPLAINED
  | EventType_UNSUBSCRIBED
  | EventType_OPENED
  | EventType_CLICKED
  | EventType_INBOUND
  | EventType_UNKNOWN

datatype RejectReason =
    RejectReason_BOUNCED
  | RejectReason_TIMED_OUT
  | RejectReason_SPAM
  | RejectReason_OTHER

text \<open>
  Values that \<^verbatim>\<open>json.loads\<close> returns. \<open>'f\<close> is the type of floats, which the model
  leaves open. A \<^verbatim>\<open>dict\<close> is the list of its items in insertion order.
\<close>

datatype 'f json =
    JNull
  | JBool bool
  | JInt int
  | JFloat 'f
  | JStr string
  | JList "'f json list"
  | JDict "(string \<times> 'f json) list"

record 'e AnymailEvent =
  event_type :: EventType
  timestamp :: int
  event_id :: "string option"
  esp_event :: 'e

record ('e, 'f) AnymailTrackingEvent = "'e AnymailEvent" +
  message_id :: "string option"
  recipient :: "string option"
  reject_reason :: "RejectReason option"
  description :: "string option"
  mta_response :: "string option"
  tags :: "string list"
  metadata :: "(string \<times> 'f json) list"
  click_url :: "string option"
  user_agent :: "string option"

subsection \<open>Dictionaries\<close>


definition dict_setitem :: "('k \<times> 'v) list \<Rightarrow> 'k \<Rightarrow> 'v \<Rightarrow> ('k \<times> 'v) list" where
  "dict_setitem d k v =
     (if k \<in> fst ` set d then map (\<lambda>kv. if fst kv = k then (k, v) else kv) d
      else d @ [(k, v)])"

text \<open>\<^verbatim>\<open>d.update(d2)\<close>: the items of \<open>d2\<close> are set in \<open>d\<close>, in their order.\<close>

definition dict_update :: "('k \<times> 'v) list \<Rightarrow> ('k \<times> 'v) list \<Rightarrow> ('k \<times> 'v) list" where
  "dict_update d d2 = fold (\<lambda>kv acc. dict_setitem acc (fst kv) (snd kv)) d2 d"

text \<open>
  Modelled from the spec: \<^verbatim>\<open>anymail.utils.combine\<close> is not in src. The specification
  (4.2, step 6) has it "shallow-merge all parsed dictionaries into one metadata mapping
  (later entries override earlier keys on conflict)". It says nothing of arguments that
  are not dictionaries: there the model answers \<open>None\<close>.
\<close>

fun as_dicts :: "'f json list \<Rightarrow> (string \<times> 'f json) list list option" where
  "as_dicts [] = Some []"
| "as_dicts (JDict d # js) = (case as_dicts js of None \<Rightarrow> None | Some ds \<Rightarrow> Some (d # ds))"
| "as_dicts (_ # js) = None"

definition combine :: "'f json list \<Rightarrow> (string \<times> 'f json) list option" where
  "combine args =
     (case as_dicts args of
        None \<Rightarrow> None
      | Some ds \<Rightarrow> Some (fold (\<lambda>d acc. dict_update acc d) ds []))"

subsection \<open>MailgunTrackingWebhookView\<close>

definition event_types :: "(string \<times> EventType) list" where
  "event_types =
     [(''delivered'', EventType_DELIVERED),
      (''dropped'', EventType_REJECTED),
      (''bounced'', EventType_BOUNCED),
      (''complained'', EventType_COMPLAINED),
      (''unsubscribed'', EventType_UNSUBSCRIBED),
      (''opened'', EventType_OPENED),
      (''clicked'', EventType_CLICKED)]"

definition reject_reasons :: "(int \<times> RejectReason) list" where
  "reject_reasons =
     [(499, RejectReason_TIMED_OUT),
      (605, RejectReason_BOUNCED),
      (607, RejectReason_SPAM)]"

text \<open>
  \<^verbatim>\<open>datetime.fromtimestamp(int(esp_event['timestamp']), tz=utc)\<close>, lines 79 and 176:
  KeyError without the field and ValueError when it is not an integer. On the integer
  (CPython on Linux, 64-bit \<^verbatim>\<open>time_t\<close>): OverflowError when it does not fit
  \<^verbatim>\<open>time_t\<close>, OSError when \<^verbatim>\<open>gmtime\<close> cannot hold the year (below
  -67768040609740800 or from 67768036191676800), ValueError when the year falls outside
  1 to 9999 (below -62135596800 or above 253402300799).
\<close>

definition fromtimestamp :: "int \<Rightarrow> error + int" where
  "fromtimestamp t =
     (if t < - (2 ^ 63) \<or> 2 ^ 63 \<le> t then Inl OverflowError
      else if t < - 67768040609740800 \<or> 67768036191676800 \<le> t then Inl OSError
      else if t < - 62135596800 \<or> 253402300799 < t then Inl ValueError
      else Inr t)"

definition event_timestamp :: "querydict \<Rightarrow> error + int" where
  "event_timestamp esp =
     (case getitem esp ''timestamp'' of
        Inl e \<Rightarrow> Inl e
      | Inr s \<Rightarrow>
          (case py_int s of
             None \<Rightarrow> Inl ValueError
           | Some t \<Rightarrow> fromtimestamp t))"

text \<open>
  Lines 82-84: the identifier is the field \<^verbatim>\<open>Message-Id\<close> when the payload has it, else
  the field \<^verbatim>\<open>message-id\<close>, else None; an identifier that is not empty and does not
  start with \<^verbatim>\<open><\<close> is wrapped in angle brackets.
\<close>

definition startswith_lt :: "string \<Rightarrow> bool" where
  "startswith_lt s = (case s of [] \<Rightarrow> False | c # cs \<Rightarrow> c = CHR ''<'')"

definition normalize_message_id :: "string option \<Rightarrow> string option" where
  "normalize_message_id mid =
     (case mid of
        None \<Rightarrow> None
      | Some s \<Rightarrow>
          if s \<noteq> [] \<and> \<not> startswith_lt s then Some (''<'' @ s @ ''>'') else Some s)"

definition event_message_id :: "querydict \<Rightarrow> string option" where
  "event_message_id esp =
     normalize_message_id (get esp ''Message-Id'' (get esp ''message-id'' None))"

text \<open>
  Lines 88-106. \<^verbatim>\<open>int(esp_event['code'])\<close> raises KeyError without the field and
  ValueError on a string that is not an integer; the handler of ValueError takes the
  text before the first dot. The handler of IndexError around \<^verbatim>\<open>split('.')[0]\<close> is the
  case of an empty list of segments.
\<close>

definition event_reject_reason :: "querydict \<Rightarrow> RejectReason option" where
  "event_reject_reason esp =
     (case getitem esp ''code'' of
        Inl e \<Rightarrow> None
      | Inr code \<Rightarrow>
          (case py_int code of
             None \<Rightarrow>
               (case split (CHR ''.'') code of
                  [] \<Rightarrow> None
                | status_class # segs \<Rightarrow>
                    Some (if status_class \<in> set [''4'', ''5''] then RejectReason_BOUNCED
                          else RejectReason_OTHER))
           | Some mta_status \<Rightarrow>
               (case map_of reject_reasons mta_status of
                  Some r \<Rightarrow> Some r
                | None \<Rightarrow>
                    Some (if 400 \<le> mta_status \<and> mta_status < 600 then RejectReason_BOUNCED
                          else RejectReason_OTHER))))"

text \<open>
  Lines 111-122. Iterating a JSON value (\<^verbatim>\<open>for [field, value] in headers\<close>): a list
  gives its elements, a string its characters, a dict its keys, anything else raises
  TypeError; unpacking an element into two names raises ValueError unless it has
  exactly two parts.
\<close>

definition py_iter :: "'f json \<Rightarrow> error + 'f json list" where
  "py_iter j =
     (case j of
        JList xs \<Rightarrow> Inr xs
      | JStr s \<Rightarrow> Inr (map (\<lambda>c. JStr [c]) s)
      | JDict d \<Rightarrow> Inr (map (\<lambda>kv. JStr (fst kv)) d)
      | _ \<Rightarrow> Inl TypeError)"

definition unpack2 :: "'f json \<Rightarrow> error + ('f json \<times> 'f json)" where
  "unpack2 j =
     (case py_iter j of
        Inl e \<Rightarrow> Inl e
      | Inr [a, b] \<Rightarrow> Inr (a, b)
      | Inr _ \<Rightarrow> Inl ValueError)"

fun mailgun_variables :: "'f json list \<Rightarrow> error + 'f json list" where
  "mailgun_variables [] = Inr []"
| "mailgun_variables (h # hs) =
     (case unpack2 h of
        Inl e \<Rightarrow> Inl e
      | Inr (field, val) \<Rightarrow>
          (case mailgun_variables hs of
             Inl e \<Rightarrow> Inl e
           | Inr vs \<Rightarrow> Inr (if field = JStr ''X-Mailgun-Variables'' then val # vs else vs)))"

text \<open>
  \<^verbatim>\<open>[json.loads(value) for value in variables]\<close>: \<^verbatim>\<open>json.loads\<close> raises TypeError on a
  value that is not a string and ValueError on a string that is not JSON.
\<close>

fun loads_each :: "(string \<Rightarrow> 'f json option) \<Rightarrow> 'f json list \<Rightarrow> error + 'f json list" where
  "loads_each json_loads [] = Inr []"
| "loads_each json_loads (JStr s # vs) =
     (case json_loads s of
        None \<Rightarrow> Inl ValueError
      | Some j \<Rightarrow>
          (case loads_each json_loads vs of
             Inl e \<Rightarrow> Inl e
           | Inr js \<Rightarrow> Inr (j # js)))"
| "loads_each json_loads (_ # vs) = Inl TypeError"

definition event_metadata ::
  "(string \<Rightarrow> 'f json option) \<Rightarrow> querydict \<Rightarrow> error + (string \<times> 'f json) list"
where
  "event_metadata json_loads esp =
     (case getitem esp ''message-headers'' of
        Inl e \<Rightarrow> Inr []
      | Inr s \<Rightarrow>
          (case json_loads s of
             None \<Rightarrow> Inl ValueError
           | Some hdrs \<Rightarrow>
               (case py_iter hdrs of
                  Inl e \<Rightarrow> Inl e
                | Inr hs \<Rightarrow>
                    (case mailgun_variables hs of
                       Inl e \<Rightarrow> Inl e
                     | Inr variables \<Rightarrow>
                         if 1 \<le> length variables then
                           (case loads_each json_loads variables of
                              Inl e \<Rightarrow> Inl e
                            | Inr parsed \<Rightarrow>
                                (case combine parsed of
                                   None \<Rightarrow> Inl Unmodelled
                                 | Some md \<Rightarrow> Inr md))
                         else Inr []))))"

text \<open>
  \<^verbatim>\<open>esp_to_anymail_event(self, esp_event)\<close> of the tracking view, lines 74-141. The
  statements run in the order of the source, so the first exception is the one raised:
  the event field, the timestamp, then the metadata.
\<close>

definition tracking_esp_to_anymail_event ::
  "(string \<Rightarrow> 'f json option) \<Rightarrow> querydict \<Rightarrow> error + (querydict, 'f) AnymailTrackingEvent"
where
  "tracking_esp_to_anymail_event json_loads esp =
     (case getitem esp ''event'' of
        Inl e \<Rightarrow> Inl e
      | Inr ev \<Rightarrow>
          (case event_timestamp esp of
             Inl e \<Rightarrow> Inl e
           | Inr ts \<Rightarrow>
               (case event_metadata json_loads esp of
                  Inl e \<Rightarrow> Inl e
                | Inr md \<Rightarrow>
                    Inr \<lparr> event_type =
                            (case map_of event_types ev of
                               Some t \<Rightarrow> t
                             | None \<Rightarrow> EventType_UNKNOWN),
                          timestamp = ts,
                          event_id = get esp ''token'' None,
                          esp_event = esp,
                          message_id = event_message_id esp,
                          recipient = get esp ''recipient'' None,
                          reject_reason = event_reject_reason esp,
                          description = get esp ''description'' None,
                          mta_response = get esp ''error'' (get esp ''notification'' None),
                          tags = getlist esp ''tag'' (getlist esp ''X-Mailgun-Tag'' []),
                          metadata = md,
                          click_url = get esp ''url'' None,
                          user_agent = get esp ''user-agent'' None \<rparr>)))"

subsection \<open>MailgunInboundWebhookView\<close>

text \<open>
  Modelled from the spec: the class \<^verbatim>\<open>AnymailInboundMessage\<close> (anymail/inbound.py) is not
  in src. The specification (3) gives a Message entity a "header mapping, plain-text
  body, HTML body, list of attachments [...], envelope sender/recipient, stripped reply
  text/HTML, spam-detected flag, optional spam score". The first four are what
  \<^verbatim>\<open>parse_raw_mime\<close> and \<^verbatim>\<open>construct\<close> build (the record \<open>mime\<close>); the others are the
  attributes this module assigns, unset (\<open>None\<close>) on a new message.
\<close>

record 'att mime =
  headers :: "(string \<times> string) list"
  text_body :: "string option"
  html_body :: "string option"
  attachments :: "'att list"

record ('att, 'f) AnymailInboundMessage = "'att mime" +
  envelope_sender :: "string option"
  envelope_recipient :: "string option"
  stripped_text :: "string option"
  stripped_html :: "string option"
  spam_detected :: "bool option"
  spam_score :: "'f option"

record ('e, 'att, 'f) AnymailInboundEvent = "'e AnymailEvent" +
  message :: "('att, 'f) AnymailInboundMessage"












section \<open>Properties\<close>

subsection \<open>Multi-valued dictionaries\<close>

lemma getlist_all_Nil: "getlist_all d k = [] \<longleftrightarrow> \<not> contains d k"
  by (force simp: getlist_all_def contains_def filter_empty_conv)

lemma getitem_absent: "\<not> contains d k \<Longrightarrow> getitem d k = Inl KeyError"
  using getlist_all_Nil[of d k] by (simp add: getitem_def)

lemma getitem_present: "contains d k \<Longrightarrow> \<exists>v. getitem d k = Inr v"
  using getlist_all_Nil[of d k] by (cases "getlist_all d k") (simp_all add: getitem_def)

lemma getitem_Inl: "getitem d k = Inl e \<Longrightarrow> e = KeyError \<and> \<not> contains d k"
  using getlist_all_Nil[of d k] by (cases "getlist_all d k") (simp_all add: getitem_def)

lemma get_absent: "\<not> contains d k \<Longrightarrow> get d k dflt = dflt"
  by (simp add: get_def getitem_absent)

lemma get_present: "getitem d k = Inr v \<Longrightarrow> get d k dflt = Some v"
  by (simp add: get_def)

subsection \<open>Splitting and parsing integers\<close>







lemma py_int_examples:
  "py_int ''450'' = Some 450"
  "py_int '' -0045 '' = Some (- 45)"
  "py_int ''4_50'' = Some 450"
  "py_int [CHR 0xA0, CHR ''2'', CHR 0x85] = Some 2"
  "py_int [CHR 0x1C, CHR ''4'', CHR ''5'', CHR ''0''] = None"
  "py_int [CHR ''2'', CHR 0x1F] = None"
  "py_int ''4__5'' = None"
  "py_int ''- 4'' = None"
  "py_int '''' = None"
  by code_simp+

lemma fromtimestamp_examples:
  "fromtimestamp 253402300799 = Inr 253402300799"
  "fromtimestamp 253402300800 = Inl ValueError"
  "fromtimestamp (- 62135596801) = Inl ValueError"
  "fromtimestamp 67768036191676799 = Inl ValueError"
  "fromtimestamp 67768036191676800 = Inl OSError"
  "fromtimestamp (- 67768040609740801) = Inl OSError"
  "fromtimestamp 9223372036854775808 = Inl OverflowError"
  by (simp_all add: fromtimestamp_def)

subsection \<open>The tracking event\<close>

lemma tracking_Inr:
  assumes "tracking_esp_to_anymail_event json_loads esp = Inr ev"
  shows "reject_reason ev = event_reject_reason esp"
    and "message_id ev = event_message_id esp"
    and "event_metadata json_loads esp = Inr (metadata ev)"
  using assms
  by (auto simp: tracking_esp_to_anymail_event_def split: sum.splits)

lemma tracking_total:
  assumes "getitem esp ''event'' = Inr e" and "event_timestamp esp = Inr t"
    and "event_metadata json_loads esp = Inr md"
  shows "\<exists>ev. tracking_esp_to_anymail_event json_loads esp = Inr ev \<and> metadata ev = md
           \<and> message_id ev = event_message_id esp \<and> reject_reason ev = event_reject_reason esp"
  using assms by (simp add: tracking_esp_to_anymail_event_def)

lemma reject_reason_examples:
  "event_reject_reason [(''code'', ''499'')] = Some RejectReason_TIMED_OUT"
  "event_reject_reason [(''code'', ''605'')] = Some RejectReason_BOUNCED"
  "event_reject_reason [(''code'', ''607'')] = Some RejectReason_SPAM"
  "event_reject_reason [(''code'', ''450'')] = Some RejectReason_BOUNCED"
  "event_reject_reason [(''code'', ''250'')] = Some RejectReason_OTHER"
  "event_reject_reason [(''code'', ''5.1.1'')] = Some RejectReason_BOUNCED"
  "event_reject_reason [(''code'', ''2.1.5'')] = Some RejectReason_OTHER"
  "event_reject_reason [(''code'', [CHR 0x1C, CHR ''4'', CHR ''5'', CHR ''0''])] =
     Some RejectReason_OTHER"
  "event_reject_reason [(''code'', '' 450 '')] = Some RejectReason_BOUNCED"
  by code_simp+

subsection \<open>Dictionaries and the metadata\<close>












lemma event_message_id_Some:
  assumes "get esp ''Message-Id'' (get esp ''message-id'' None) = Some s" and "s \<noteq> []"
  shows "event_message_id esp = Some (if hd s = CHR ''<'' then s else ''<'' @ s @ ''>'')"
  using assms
  by (cases s) (simp_all add: event_message_id_def normalize_message_id_def startswith_lt_def)

subsection \<open>Attachments of the fully-parsed message\<close>







subsection \<open>The inbound event\<close>





subsection \<open>The claims\<close>

text \<open>
  C1 (as amended). When the check of the base view passes: a request without one of the
  fields \<^verbatim>\<open>token\<close>, \<^verbatim>\<open>timestamp\<close>, \<^verbatim>\<open>signature\<close> raises the validation failure; a
  request with all three, whose timestamp and token are ASCII, returns without error
  when the signature is the hexadecimal HMAC-SHA256 digest of timestamp||token under the
  configured key, and raises the validation failure when the signature differs from it.
\<close>

theorem validate_request_fields_and_digest:
  assumes "super_validate req = None"
  shows "(\<not> (contains (POST req) ''token'' \<and> contains (POST req) ''timestamp''
              \<and> contains (POST req) ''signature'') \<longrightarrow>
            validate_request super_validate hmac_hexdigest api_key req =
              Inl (AnymailWebhookValidationFailure
                     ''Mailgun webhook called without required security fields''))
       \<and> (\<forall>token tstamp signature.
             getitem (POST req) ''token'' = Inr token
             \<and> getitem (POST req) ''timestamp'' = Inr tstamp
             \<and> getitem (POST req) ''signature'' = Inr signature
             \<and> list_all is_ascii (tstamp @ token) \<longrightarrow>
               validate_request super_validate hmac_hexdigest api_key req =
                 (if signature = hmac_hexdigest api_key (tstamp @ token) then Inr ()
                  else Inl (AnymailWebhookValidationFailure
                              ''Mailgun webhook called with incorrect signature'')))"
proof (intro conjI impI allI)
  assume "\<not> (contains (POST req) ''token'' \<and> contains (POST req) ''timestamp''
              \<and> contains (POST req) ''signature'')"
  then have "getitem (POST req) ''token'' = Inl KeyError
             \<or> getitem (POST req) ''timestamp'' = Inl KeyError
             \<or> getitem (POST req) ''signature'' = Inl KeyError"
    using getitem_absent by blast
  then show "validate_request super_validate hmac_hexdigest api_key req =
              Inl (AnymailWebhookValidationFailure
                     ''Mailgun webhook called without required security fields'')"
    using assms by (auto simp: validate_request_def split: sum.splits)
next
  fix token tstamp signature
  assume "getitem (POST req) ''token'' = Inr token
             \<and> getitem (POST req) ''timestamp'' = Inr tstamp
             \<and> getitem (POST req) ''signature'' = Inr signature
             \<and> list_all is_ascii (tstamp @ token)"
  then show "validate_request super_validate hmac_hexdigest api_key req =
                 (if signature = hmac_hexdigest api_key (tstamp @ token) then Inr ()
                  else Inl (AnymailWebhookValidationFailure
                              ''Mailgun webhook called with incorrect signature''))"
    using assms
    by (simp add: validate_request_def encode_ascii_def constant_time_compare_def)
qed

theorem validate_request_fields_and_digest_witness:
  "validate_request (\<lambda>r. None) (\<lambda>key msg. ''d1'' @ key @ msg) ''key-0''
     \<lparr>POST = [(''timestamp'', ''1500000000''), (''token'', ''a0b1''),
              (''signature'', ''d1key-01500000000a0b1'')], FILES = ([] :: unit multidict)\<rparr> = Inr ()
   \<and> validate_request (\<lambda>r. None) (\<lambda>key msg. ''d1'' @ key @ msg) ''key-0''
     \<lparr>POST = [(''timestamp'', ''1500000000''), (''token'', ''a0b1''),
              (''signature'', ''d0key-01500000000a0b1'')], FILES = ([] :: unit multidict)\<rparr> =
       Inl (AnymailWebhookValidationFailure ''Mailgun webhook called with incorrect signature'')
   \<and> validate_request (\<lambda>r. None) (\<lambda>key msg. ''d1'' @ key @ msg) ''key-0''
     \<lparr>POST = [(''timestamp'', ''1500000000''), (''token'', ''a0b1'')],
      FILES = ([] :: unit multidict)\<rparr> =
       Inl (AnymailWebhookValidationFailure
              ''Mailgun webhook called without required security fields'')"
proof -
  let ?h = "\<lambda>key msg :: string. ''d1'' @ key @ msg"
  let ?ok = "\<lparr>POST = [(''timestamp'', ''1500000000''), (''token'', ''a0b1''),
              (''signature'', ''d1key-01500000000a0b1'')], FILES = ([] :: unit multidict)\<rparr>"
  let ?bad = "\<lparr>POST = [(''timestamp'', ''1500000000''), (''token'', ''a0b1''),
              (''signature'', ''d0key-01500000000a0b1'')], FILES = ([] :: unit multidict)\<rparr>"
  let ?none = "\<lparr>POST = [(''timestamp'', ''1500000000''), (''token'', ''a0b1'')],
      FILES = ([] :: unit multidict)\<rparr>"
  have asc: "list_all is_ascii (''1500000000'' @ ''a0b1'')"
    by (simp add: is_ascii_def)
  have g1: "getitem (POST ?ok) ''token'' = Inr ''a0b1''"
       "getitem (POST ?ok) ''timestamp'' = Inr ''1500000000''"
       "getitem (POST ?ok) ''signature'' = Inr ''d1key-01500000000a0b1''"
    by (simp_all add: getitem_def getlist_all_def)
  have g2: "getitem (POST ?bad) ''token'' = Inr ''a0b1''"
       "getitem (POST ?bad) ''timestamp'' = Inr ''1500000000''"
       "getitem (POST ?bad) ''signature'' = Inr ''d0key-01500000000a0b1''"
    by (simp_all add: getitem_def getlist_all_def)
  have g3: "\<not> (contains (POST ?none) ''token'' \<and> contains (POST ?none) ''timestamp''
              \<and> contains (POST ?none) ''signature'')"
    by (simp add: contains_def)
  have n: "(\<lambda>r :: unit request. None :: error option) r = None" for r by simp
  from validate_request_fields_and_digest[of "\<lambda>r. None" ?ok ?h "''key-0''", OF n] g1 asc
  have 1: "validate_request (\<lambda>r. None) ?h ''key-0'' ?ok = Inr ()" by simp
  from validate_request_fields_and_digest[of "\<lambda>r. None" ?bad ?h "''key-0''", OF n] g2 asc
  have 2: "validate_request (\<lambda>r. None) ?h ''key-0'' ?bad =
       Inl (AnymailWebhookValidationFailure ''Mailgun webhook called with incorrect signature'')"
    by simp
  from validate_request_fields_and_digest[of "\<lambda>r. None" ?none ?h "''key-0''", OF n] g3
  have 3: "validate_request (\<lambda>r. None) ?h ''key-0'' ?none =
       Inl (AnymailWebhookValidationFailure
              ''Mailgun webhook called without required security fields'')"
    by blast
  show ?thesis using 1 2 3 by blast
qed

text \<open>
  C1 as stated fails. A request with all three fields and a signature that is not the
  digest, whose token is not ASCII, raises UnicodeEncodeError (from
  \<^verbatim>\<open>.encode('ascii')\<close>, line 37), not the validation failure. A request with all three
  fields and the right signature raises the validation failure when the check of the
  base view (the call in line 30) raises it.
\<close>

theorem validate_request_counterexample:
  "validate_request (\<lambda>r. None) (\<lambda>key msg. ''d1'' @ key @ msg) ''key-0''
     \<lparr>POST = [(''timestamp'', ''1500000000''), (''token'', [CHR 0xE9]),
              (''signature'', ''d0'')], FILES = ([] :: unit multidict)\<rparr> = Inl UnicodeEncodeError
   \<and> validate_request (\<lambda>r. Some (AnymailWebhookValidationFailure ''basic auth''))
       (\<lambda>key msg. ''d1'' @ key @ msg) ''key-0''
     \<lparr>POST = [(''timestamp'', ''1500000000''), (''token'', ''a0b1''),
              (''signature'', ''d1key-01500000000a0b1'')], FILES = ([] :: unit multidict)\<rparr> =
       Inl (AnymailWebhookValidationFailure ''basic auth'')"
  by (simp add: validate_request_def getitem_def getlist_all_def encode_ascii_def is_ascii_def)



text \<open>
  C3. A code that is neither an integer nor an extended status code, such as "abc" or
  the empty string, does not leave the reject reason unset: \<^verbatim>\<open>code.split('.')[0]\<close>
  raises nothing on a string, so the handler of lines 97-99 never runs, the branch of
  line 101 does, and the reason is other.
\<close>

theorem unparseable_code_gives_other:
  "(\<exists>ev. tracking_esp_to_anymail_event json_loads
           [(''event'', ''dropped''), (''timestamp'', ''1500000000''), (''code'', ''abc'')] = Inr ev
         \<and> reject_reason ev = Some RejectReason_OTHER)
   \<and> (\<exists>ev. tracking_esp_to_anymail_event json_loads
           [(''event'', ''dropped''), (''timestamp'', ''1500000000''), (''code'', '''')] = Inr ev
         \<and> reject_reason ev = Some RejectReason_OTHER)"
proof -
  let ?a = "[(''event'', ''dropped''), (''timestamp'', ''1500000000''), (''code'', ''abc'')]"
  let ?b = "[(''event'', ''dropped''), (''timestamp'', ''1500000000''), (''code'', '''')]"
  have ts: "py_int ''1500000000'' = Some 1500000000" by code_simp
  have a1: "getitem ?a ''event'' = Inr ''dropped''"
    and a2: "event_timestamp ?a = Inr 1500000000"
    and a3: "event_metadata json_loads ?a = Inr []"
    by (simp_all add: getitem_def getlist_all_def event_timestamp_def event_metadata_def ts
          fromtimestamp_def)
  have b1: "getitem ?b ''event'' = Inr ''dropped''"
    and b2: "event_timestamp ?b = Inr 1500000000"
    and b3: "event_metadata json_loads ?b = Inr []"
    by (simp_all add: getitem_def getlist_all_def event_timestamp_def event_metadata_def ts
          fromtimestamp_def)
  have "event_reject_reason ?a = Some RejectReason_OTHER"
    and "event_reject_reason ?b = Some RejectReason_OTHER"
    by code_simp+
  then show ?thesis
    using tracking_total[OF a1 a2 a3] tracking_total[OF b1 b2 b3] by auto
qed




text \<open>
  C5. Normalizing a message identifier twice gives what normalizing it once gives, for
  every identifier (and for none); an identifier already in angle brackets is returned
  as it is.
\<close>

theorem normalize_message_id_idempotent:
  "normalize_message_id (normalize_message_id mid) = normalize_message_id mid
   \<and> normalize_message_id (Some (''<'' @ s @ ''>'')) = Some (''<'' @ s @ ''>'')"
  by (cases mid) (simp_all add: normalize_message_id_def startswith_lt_def)

text \<open>
  C6 (as amended). For a tracking payload whose identifier (the field \<^verbatim>\<open>Message-Id\<close>
  when it is present, else the field \<^verbatim>\<open>message-id\<close>) is not empty, the message_id of
  the event starts with \<^verbatim>\<open><\<close>: it is the identifier itself when that starts with
  \<^verbatim>\<open><\<close>, and the identifier between \<^verbatim>\<open><\<close> and \<^verbatim>\<open>>\<close> when not. So it ends with
  \<^verbatim>\<open>>\<close> exactly when the identifier does not start with \<^verbatim>\<open><\<close> or itself ends with
  \<^verbatim>\<open>>\<close>.
\<close>

theorem message_id_starts_with_bracket:
  assumes "tracking_esp_to_anymail_event json_loads esp = Inr ev"
    and "get esp ''Message-Id'' (get esp ''message-id'' None) = Some s"
    and "s \<noteq> []"
  shows "\<exists>m. message_id ev = Some m
           \<and> m = (if hd s = CHR ''<'' then s else ''<'' @ s @ ''>'')
           \<and> hd m = CHR ''<''
           \<and> (last m = CHR ''>'') = (hd s \<noteq> CHR ''<'' \<or> last s = CHR ''>'')"
proof -
  have "message_id ev = Some (if hd s = CHR ''<'' then s else ''<'' @ s @ ''>'')"
    using tracking_Inr(2)[OF assms(1)] event_message_id_Some[OF assms(2,3)] by simp
  then show ?thesis by auto
qed

theorem message_id_starts_with_bracket_witness:
  "\<exists>ev. tracking_esp_to_anymail_event (\<lambda>s. None :: unit json option)
           [(''event'', ''delivered''), (''timestamp'', ''1500000000''),
            (''message-id'', ''20170713.1@example.org'')] = Inr ev
        \<and> message_id ev = Some ''<20170713.1@example.org>''"
proof -
  let ?jl = "\<lambda>s. None :: unit json option"
  let ?a = "[(''event'', ''delivered''), (''timestamp'', ''1500000000''),
            (''message-id'', ''20170713.1@example.org'')]"
  have ts: "py_int ''1500000000'' = Some 1500000000" by code_simp
  have a1: "getitem ?a ''event'' = Inr ''delivered''"
    and a2: "event_timestamp ?a = Inr 1500000000"
    and a3: "event_metadata ?jl ?a = Inr []"
    by (simp_all add: getitem_def getlist_all_def event_timestamp_def event_metadata_def ts
          fromtimestamp_def)
  obtain ev where ev: "tracking_esp_to_anymail_event ?jl ?a = Inr ev"
    using tracking_total[OF a1 a2 a3] by blast
  have g: "get ?a ''Message-Id'' (get ?a ''message-id'' None) = Some ''20170713.1@example.org''"
    by (simp add: get_def getitem_def getlist_all_def)
  have "message_id ev = Some ''<20170713.1@example.org>''"
    using message_id_starts_with_bracket[OF ev g] by simp
  with ev show ?thesis by blast
qed

text \<open>
  C6 as stated fails: an identifier that starts with \<^verbatim>\<open><\<close> and does not end with
  \<^verbatim>\<open>>\<close> is kept as it is.
\<close>

theorem message_id_brackets_counterexample:
  "\<exists>ev. tracking_esp_to_anymail_event (\<lambda>s. None :: unit json option)
           [(''event'', ''delivered''), (''timestamp'', ''1500000000''),
            (''Message-Id'', ''<20170713.1@example.org'')] = Inr ev
        \<and> message_id ev = Some ''<20170713.1@example.org''"
proof -
  let ?jl = "\<lambda>s. None :: unit json option"
  let ?a = "[(''event'', ''delivered''), (''timestamp'', ''1500000000''),
            (''Message-Id'', ''<20170713.1@example.org'')]"
  have ts: "py_int ''1500000000'' = Some 1500000000" by code_simp
  have a1: "getitem ?a ''event'' = Inr ''delivered''"
    and a2: "event_timestamp ?a = Inr 1500000000"
    and a3: "event_metadata ?jl ?a = Inr []"
    by (simp_all add: getitem_def getlist_all_def event_timestamp_def event_metadata_def ts
          fromtimestamp_def)
  have "event_message_id ?a = Some ''<20170713.1@example.org''"
    by (simp add: event_message_id_def get_def getitem_def getlist_all_def
          normalize_message_id_def startswith_lt_def)
  then show ?thesis using tracking_total[OF a1 a2 a3] by auto
qed





text \<open>
  C10. For a tracking payload with neither the field \<^verbatim>\<open>Message-Id\<close> nor the field
  \<^verbatim>\<open>message-id\<close>, the event has no message identifier (None), and an exception, if one
  is raised, is the one of the event field, of the timestamp or of the metadata: none
  comes from the missing identifier.
\<close>

theorem missing_message_id:
  assumes "\<not> contains esp ''Message-Id''" and "\<not> contains esp ''message-id''"
  shows "case tracking_esp_to_anymail_event json_loads esp of
           Inr ev \<Rightarrow> message_id ev = None
         | Inl err \<Rightarrow> getitem esp ''event'' = Inl err \<or> event_timestamp esp = Inl err
                      \<or> event_metadata json_loads esp = Inl err"
proof -
  have "event_message_id esp = None"
    using assms by (simp add: event_message_id_def get_absent normalize_message_id_def)
  then show ?thesis
    by (auto simp: tracking_esp_to_anymail_event_def split: sum.splits)
qed

theorem missing_message_id_witness:
  "\<exists>ev. tracking_esp_to_anymail_event (\<lambda>s. None :: unit json option)
           [(''event'', ''delivered''), (''timestamp'', ''1500000000'')] = Inr ev
        \<and> message_id ev = None"
proof -
  let ?jl = "\<lambda>s. None :: unit json option"
  let ?a = "[(''event'', ''delivered''), (''timestamp'', ''1500000000'')]"
  have ts: "py_int ''1500000000'' = Some 1500000000" by code_simp
  have a1: "getitem ?a ''event'' = Inr ''delivered''"
    and a2: "event_timestamp ?a = Inr 1500000000"
    and a3: "event_metadata ?jl ?a = Inr []"
    by (simp_all add: getitem_def getlist_all_def event_timestamp_def event_metadata_def ts
          fromtimestamp_def)
  obtain ev where ev: "tracking_esp_to_anymail_event ?jl ?a = Inr ev"
    using tracking_total[OF a1 a2 a3] by blast
  have "\<not> contains ?a ''Message-Id''" and "\<not> contains ?a ''message-id''"
    by (simp_all add: contains_def)
  from missing_message_id[OF this, of ?jl] ev have "message_id ev = None" by simp
  with ev show ?thesis by blast
qed

end
